theory Spec2Isabelle
  imports Complex_Main "HOL-Library.Sublist"
begin

section \<open>Data model (tasks/models.py)\<close>

text \<open>
  Python values that travel through the views are modelled as JSON-like values.
  A dict literal is an association list in the order of the source; \<open>'f\<close> is the type
  of Python floats, which the development never inspects.  A Python \<open>str\<close> is a
  \<open>string\<close>, one \<open>char\<close> per element of the \<open>str\<close>.
\<close>

datatype 'f json =
    JNull
  | JBool bool
  | JInt int
  | JFloat 'f
  | JStr string
  | JList "'f json list"
  | JDict "(string \<times> 'f json) list"

text \<open>
  Exceptions are values.  The first four are the ones the subscripting and \<open>.get\<close>
  calls of the views can raise on a parsed JSON body; \<open>ValueError\<close> carries its
  message; \<open>IntegrityError\<close> is the database's for a null in a column that is not
  nullable; \<open>Timeout\<close> and
  \<open>ConnectionError\<close> are the two classes of \<open>requests.exceptions\<close> the weather
  view catches by name; \<open>UndefinedValueError\<close> is what \<open>config\<close> raises for an
  option that is not set; \<open>Raised\<close> is any other \<open>Exception\<close>, tagged with the text
  that identifies it.
\<close>

datatype exc =
    KeyError string
  | TypeError
  | IndexError
  | AttributeError
  | ValueError string
  | IntegrityError
  | Timeout
  | ConnectionError
  | UndefinedValueError string
  | Raised string



text \<open>
  A row of the task table.  Timestamps are points on a discrete clock; \<open>user\<close> is the
  key of the owning user.
\<close>

record task =
  task_id :: nat
  title :: string
  description :: string
  priority :: string
  status :: string
  created_at :: nat
  updated_at :: nat
  due_date :: "nat option"
  user :: nat

text \<open>
  A row of the weather log table, each column with the type of its field: two
  \<open>CharField\<close>s, a \<open>FloatField\<close>, an \<open>IntegerField\<close> and a \<open>DateTimeField\<close>.
\<close>

record 'f weather_log =
  log_id :: nat
  log_city :: string
  log_temperature :: 'f
  log_description :: string
  log_humidity :: int
  log_timestamp :: nat

text \<open>
  The state a request can change or leave a trace in: the two tables, the keys the
  database gives to the next task and to the next weather log, the URLs requested from
  the weather API so far and the number of charts whose rendering was started.
\<close>

record 'f world =
  tasks :: "task list"
  weather_logs :: "'f weather_log list"
  next_task_id :: nat
  next_log_id :: nat
  http_calls :: "string list"
  chart_calls :: nat

text \<open>
  What a request meets outside the program: the configuration read by \<open>config\<close>, the
  answer of \<open>requests.get\<close> for a URL, the faults of the database, the keys of the
  user table, the clock, the chart library and the template engine, and the functions of
  the interpreter and its libraries that print a timestamp, an exception or a value, that
  convert between numbers and text and that compute with floats.

  The database can raise at three places: \<open>db_query_fault\<close> when a query is run,
  \<open>db_connect_fault\<close> when an insert opens its cursor, which it does before it
  prepares its values, and \<open>db_insert_fault\<close> when the prepared row is executed,
  for whatever reason the database then has to refuse it.

  The clock is read at most once per request at each of three places: \<open>now\<close> is the
  value of \<open>timezone.now()\<close> in the body of a view, \<open>auto_now_add_time\<close> the value
  an insert gives to a column declared \<open>auto_now_add\<close>, and \<open>auto_now_time\<close> the
  value it gives to a column declared \<open>auto_now\<close>.

  \<open>py_str\<close> is \<open>str(v)\<close> for a value that is not a \<open>str\<close>; \<open>float_of_int\<close>,
  \<open>float_of_str\<close>, \<open>int_of_float\<close> and \<open>int_of_str\<close> are \<open>float(v)\<close> and
  \<open>int(v)\<close> on the arguments their names say, each with the exception it may raise.
\<close>

record 'f http_response =
  status_code :: int
  body_text :: string
  json_body :: "exc + 'f json"

record chart_spec =
  pie :: "(string list \<times> int list \<times> string list) option"
  bars :: "(string list \<times> int list \<times> string list) option"

record 'f env =
  config :: "string \<rightharpoonup> string"
  requests_get :: "string \<Rightarrow> exc + 'f http_response"
  db_connect_fault :: "exc option"
  db_insert_fault :: "exc option"
  db_query_fault :: "exc option"
  user_exists :: "nat \<Rightarrow> bool"
  now :: nat
  auto_now_add_time :: nat
  auto_now_time :: nat
  isoformat :: "nat \<Rightarrow> string"
  strftime :: "nat \<Rightarrow> string"
  unix_seconds :: "nat \<Rightarrow> int"
  str_exc :: "exc \<Rightarrow> string"
  py_str :: "'f json \<Rightarrow> string"
  float_of_int :: "int \<Rightarrow> exc + 'f"
  float_of_str :: "string \<Rightarrow> exc + 'f"
  int_of_float :: "'f \<Rightarrow> exc + int"
  int_of_str :: "string \<Rightarrow> exc + int"
  truediv :: "int \<Rightarrow> int \<Rightarrow> 'f"
  mul_int :: "'f \<Rightarrow> int \<Rightarrow> 'f"
  round_ndigits :: "'f \<Rightarrow> int \<Rightarrow> 'f"
  savefig_b64 :: "chart_spec \<Rightarrow> exc + string"
  render_template :: "string \<Rightarrow> (nat \<times> task list \<times> nat \<times> nat) \<Rightarrow> exc + string"

text \<open>
  A \<open>Response(data, status=...)\<close> of the REST framework, as the view returns it.  The
  constructor, which is Django's \<open>HttpResponse\<close>'s, raises \<open>ValueError\<close> for a
  status that is not from 100 to 599.  Where a view passes a literal status or none, the
  record is written directly.
\<close>

record 'f response =
  resp_status :: int
  resp_data :: "'f json"

definition Response :: "'f json \<Rightarrow> int \<Rightarrow> exc + 'f response" where
  "Response data status_arg =
     (if 100 \<le> status_arg \<and> status_arg \<le> 599
      then Inr \<lparr>resp_status = status_arg, resp_data = data\<rparr>
      else Inl (ValueError ''HTTP status code must be an integer from 100 to 599.''))"

section \<open>Python operations on parsed JSON\<close>

text \<open>\<open>v[k]\<close> for a string key \<open>k\<close>.\<close>

fun subscript :: "'f json \<Rightarrow> string \<Rightarrow> exc + 'f json" where
  "subscript (JDict kvs) k =
     (case map_of kvs k of None \<Rightarrow> Inl (KeyError k) | Some v \<Rightarrow> Inr v)"
| "subscript _ k = Inl TypeError"

text \<open>\<open>v[0]\<close>.\<close>

fun subscript0 :: "'f json \<Rightarrow> exc + 'f json" where
  "subscript0 (JList []) = Inl IndexError"
| "subscript0 (JList (x # xs)) = Inr x"
| "subscript0 (JStr []) = Inl IndexError"
| "subscript0 (JStr (c # cs)) = Inr (JStr [c])"
| "subscript0 (JDict kvs) = Inl (KeyError ''0'')"
| "subscript0 _ = Inl TypeError"

text \<open>\<open>v.get(k, d)\<close>; \<open>v.get(k)\<close> is \<open>get_method v k JNull\<close>.\<close>

fun get_method :: "'f json \<Rightarrow> string \<Rightarrow> 'f json \<Rightarrow> exc + 'f json" where
  "get_method (JDict kvs) k d = Inr (case map_of kvs k of None \<Rightarrow> d | Some v \<Rightarrow> v)"
| "get_method _ k d = Inl AttributeError"

text \<open>Sequencing of computations that may raise.\<close>

fun and_then :: "exc + 'a \<Rightarrow> ('a \<Rightarrow> exc + 'b) \<Rightarrow> exc + 'b" where
  "and_then (Inl e) f = Inl e"
| "and_then (Inr x) f = f x"

text \<open>\<open>str(n)\<close> for an integer.\<close>

definition digit_char :: "nat \<Rightarrow> char" where
  "digit_char d = char_of (48 + d)"

function str_nat :: "nat \<Rightarrow> string" where
  "str_nat n = (if n < 10 then [digit_char n] else str_nat (n div 10) @ [digit_char (n mod 10)])"
  by pat_completeness auto
termination
  by (relation "measure (\<lambda>n. n)") auto

declare str_nat.simps [simp del]

definition str_int :: "int \<Rightarrow> string" where
  "str_int i = (if i < 0 then ''-'' @ str_nat (nat (- i)) else str_nat (nat i))"

section \<open>Task listing (tasks/views.py, TaskViewSet.get_queryset)\<close>

text \<open>
  \<open>Task.objects.all()\<close> under \<open>Meta.ordering = ['-created_at']\<close>: the rows, newest
  first.
\<close>

definition Task_objects_all :: "'f world \<Rightarrow> task list" where
  "Task_objects_all w = sort_key (\<lambda>t. - int (created_at t)) (tasks w)"

text \<open>Python's truth value of \<open>query_params.get(k, None)\<close>: \<open>None\<close> and \<open>''\<close> are false.\<close>

fun truthy :: "string option \<Rightarrow> bool" where
  "truthy None = False"
| "truthy (Some s) = (s \<noteq> [])"

definition filter_status :: "string option \<Rightarrow> task list \<Rightarrow> task list" where
  "filter_status status_filter queryset =
     (case status_filter of
        None \<Rightarrow> queryset
      | Some s \<Rightarrow> if truthy (Some s) then filter (\<lambda>t. status t = s) queryset else queryset)"

definition filter_priority :: "string option \<Rightarrow> task list \<Rightarrow> task list" where
  "filter_priority priority_filter queryset =
     (case priority_filter of
        None \<Rightarrow> queryset
      | Some p \<Rightarrow> if truthy (Some p) then filter (\<lambda>t. priority t = p) queryset else queryset)"

definition get_queryset :: "'f world \<Rightarrow> (string \<rightharpoonup> string) \<Rightarrow> task list" where
  "get_queryset w query_params =
     (let queryset = Task_objects_all w;
          status_filter = query_params ''status'';
          priority_filter = query_params ''priority'';
          queryset = filter_status status_filter queryset;
          queryset = filter_priority priority_filter queryset
      in queryset)"

section \<open>Creating and retrieving tasks (tasks/serializers.py, TaskViewSet)\<close>

text \<open>
  \<open>TaskViewSet\<close> has no code of its own for creating and retrieving a task: both are
  what the REST framework's \<open>ModelViewSet\<close> and \<open>ModelSerializer\<close> do for the
  declarations of \<open>Task\<close> and \<open>TaskSerializer\<close>, and the definitions of this
  section follow those declarations field by field.
\<close>













text \<open>
  The outcome of \<open>POST /api/tasks/\<close>: HTTP 201 with the new task, or HTTP 400 with the
  errors of the fields.  The view catches no exception of the database: one raised by
  the lookup of the submitted user, which validation runs as a query, or by the insert
  ends the request without either answer.
\<close>

datatype create_result = Created task | Invalid "(string \<times> string) list"






section \<open>Weather lookup (tasks/views.py, get_weather)\<close>

definition weather_url :: "string \<Rightarrow> string \<Rightarrow> string" where
  "weather_url city api_key =
     ''http://api.openweathermap.org/data/2.5/weather?q='' @ city @ ''&appid='' @ api_key
       @ ''&units=metric''"

text \<open>
  \<open>data['name']\<close>, \<open>data['main']['temp']\<close>, \<open>data['weather'][0]['description']\<close>
  and \<open>data['main']['humidity']\<close>, evaluated in this order; the first one that raises
  decides the exception.
\<close>

definition required_fields ::
  "'f json \<Rightarrow> exc + ('f json \<times> 'f json \<times> 'f json \<times> 'f json)" where
  "required_fields data =
     and_then (subscript data ''name'') (\<lambda>name.
     and_then (and_then (subscript data ''main'') (\<lambda>m. subscript m ''temp'')) (\<lambda>temp.
     and_then (and_then (and_then (subscript data ''weather'') subscript0)
                 (\<lambda>w0. subscript w0 ''description'')) (\<lambda>descr.
     and_then (and_then (subscript data ''main'') (\<lambda>m. subscript m ''humidity'')) (\<lambda>hum.
     Inr (name, temp, descr, hum)))))"

text \<open>
  The five entries read with \<open>.get\<close>: \<open>data['main'].get('feels_like')\<close>,
  \<open>data['main'].get('pressure')\<close>, \<open>data.get('visibility')\<close>,
  \<open>data.get('wind', {}).get('speed')\<close> and \<open>data.get('sys', {}).get('country')\<close>.
\<close>

definition optional_fields :: "'f json \<Rightarrow> exc + (string \<times> 'f json) list" where
  "optional_fields data =
     and_then (and_then (subscript data ''main'') (\<lambda>m. get_method m ''feels_like'' JNull))
       (\<lambda>feels_like.
     and_then (and_then (subscript data ''main'') (\<lambda>m. get_method m ''pressure'' JNull))
       (\<lambda>pressure.
     and_then (get_method data ''visibility'' JNull) (\<lambda>visibility.
     and_then (and_then (get_method data ''wind'' (JDict [])) (\<lambda>x. get_method x ''speed'' JNull))
       (\<lambda>wind_speed.
     and_then (and_then (get_method data ''sys'' (JDict [])) (\<lambda>x. get_method x ''country'' JNull))
       (\<lambda>country.
     Inr [(''feels_like'', feels_like), (''pressure'', pressure), (''visibility'', visibility),
          (''wind_speed'', wind_speed), (''country'', country)])))))"

text \<open>
  The two optional sub-objects are read with \<open>data.get(k, {})\<close> followed by
  \<open>.get(...)\<close>: that succeeds when the entry is absent or is an object, and raises
  when it is anything else, \<open>null\<close> included.
\<close>

definition object_or_absent :: "'f json \<Rightarrow> string \<Rightarrow> bool" where
  "object_or_absent data k =
     (case get_method data k (JDict []) of Inr (JDict kvs) \<Rightarrow> True | _ \<Rightarrow> False)"

text \<open>
  The dict literal \<open>response_data\<close>, which both branches of the inner \<open>try\<close> build in
  the same way from the body, a timestamp in two formats and their own \<open>debug_info\<close>.
\<close>

definition response_data :: "'f json \<Rightarrow> string \<Rightarrow> string \<Rightarrow> 'f json \<Rightarrow> exc + 'f json" where
  "response_data data logged_at logged_at_readable debug_info =
     and_then (required_fields data) (\<lambda>(name, temp, descr, hum).
     and_then (optional_fields data) (\<lambda>opt.
     Inr (JDict ([(''city'', name), (''temperature'', temp), (''description'', descr),
                  (''humidity'', hum), (''logged_at'', JStr logged_at),
                  (''logged_at_readable'', JStr logged_at_readable)]
                 @ opt @ [(''debug_info'', debug_info)]))))"

text \<open>The three \<open>except\<close> clauses of the outer \<open>try\<close>, in their order.\<close>

definition except_outer :: "'f env \<Rightarrow> exc \<Rightarrow> 'f response" where
  "except_outer env e =
     (case e of
        Timeout \<Rightarrow>
          \<lparr>resp_status = 504,
           resp_data = JDict [(''error'', JStr ''Weather API request timed out''),
             (''debug_info'', JStr ''The weather service is taking too long to respond'')]\<rparr>
      | ConnectionError \<Rightarrow>
          \<lparr>resp_status = 503,
           resp_data = JDict [(''error'', JStr ''Cannot connect to weather API''),
             (''debug_info'', JStr ''Check your internet connection'')]\<rparr>
      | _ \<Rightarrow>
          \<lparr>resp_status = 500,
           resp_data = JDict [(''error'', JStr ''Unexpected error occurred''),
             (''debug_info'', JStr (str_exc env e))]\<rparr>)"

text \<open>
  The handler \<open>except Exception as db_error\<close> of the inner \<open>try\<close>.  An exception
  raised while it builds its own \<open>response_data\<close> reaches the outer handlers.
\<close>

definition respond_unstored ::
  "'f env \<Rightarrow> 'f world \<Rightarrow> 'f json \<Rightarrow> exc \<Rightarrow> 'f response \<times> 'f world" where
  "respond_unstored env w data db_error =
     (let current_time = now env in
      case response_data data (isoformat env current_time) (strftime env current_time)
             (JDict [(''api_status'', JStr ''success''), (''stored_in_db'', JBool False),
                     (''db_error'', JStr (str_exc env db_error)),
                     (''timestamp_iso'', JStr (isoformat env current_time))]) of
        Inl e \<Rightarrow> (except_outer env e, w)
      | Inr rd \<Rightarrow> (\<lparr>resp_status = 200, resp_data = rd\<rparr>, w))"

text \<open>
  What the insert makes of a value for a column, before the row is executed.  A
  \<open>CharField\<close> keeps a \<open>str\<close> and takes \<open>str(v)\<close> of anything else; a
  \<open>FloatField\<close> takes \<open>float(v)\<close> and an \<open>IntegerField\<close> \<open>int(v)\<close>, which raise
  for a list or an object and may raise for a text or a number out of range; a null stays
  a null (\<open>None\<close> here) in each of them.
\<close>

definition char_column :: "'f env \<Rightarrow> 'f json \<Rightarrow> string option" where
  "char_column env v =
     (case v of JNull \<Rightarrow> None | JStr s \<Rightarrow> Some s | _ \<Rightarrow> Some (py_str env v))"

definition float_column :: "'f env \<Rightarrow> 'f json \<Rightarrow> exc + 'f option" where
  "float_column env v =
     (case v of
        JNull \<Rightarrow> Inr None
      | JFloat f \<Rightarrow> Inr (Some f)
      | JInt i \<Rightarrow> and_then (float_of_int env i) (\<lambda>f. Inr (Some f))
      | JBool b \<Rightarrow> and_then (float_of_int env (if b then 1 else 0)) (\<lambda>f. Inr (Some f))
      | JStr s \<Rightarrow> and_then (float_of_str env s) (\<lambda>f. Inr (Some f))
      | _ \<Rightarrow> Inl TypeError)"

definition int_column :: "'f env \<Rightarrow> 'f json \<Rightarrow> exc + int option" where
  "int_column env v =
     (case v of
        JNull \<Rightarrow> Inr None
      | JInt i \<Rightarrow> Inr (Some i)
      | JBool b \<Rightarrow> Inr (Some (if b then 1 else 0))
      | JFloat f \<Rightarrow> and_then (int_of_float env f) (\<lambda>i. Inr (Some i))
      | JStr s \<Rightarrow> and_then (int_of_str env s) (\<lambda>i. Inr (Some i))
      | _ \<Rightarrow> Inl TypeError)"

text \<open>
  The insert of \<open>WeatherLog.objects.create(city=..., temperature=..., description=...,
  humidity=...)\<close>: the cursor is opened, the values are prepared in the order of the
  columns, and the row is executed, where the database raises for a fault of its own or
  for a null in one of the four columns, none of which is nullable.  The result is the
  values that reach the table.
\<close>

definition insert_values ::
  "'f env \<Rightarrow> 'f json \<times> 'f json \<times> 'f json \<times> 'f json \<Rightarrow> exc + (string \<times> 'f \<times> string \<times> int)" where
  "insert_values env v =
     (case v of (name, temp, descr, hum) \<Rightarrow>
        (case db_connect_fault env of
           Some e \<Rightarrow> Inl e
         | None \<Rightarrow>
             and_then (float_column env temp) (\<lambda>t.
             and_then (int_column env hum) (\<lambda>h.
               (case db_insert_fault env of
                  Some e \<Rightarrow> Inl e
                | None \<Rightarrow>
                    (case (char_column env name, t, char_column env descr, h) of
                       (Some c, Some t', Some d, Some h') \<Rightarrow> Inr (c, t', d, h')
                     | _ \<Rightarrow> Inl IntegrityError))))))"

text \<open>
  The body of the inner \<open>try\<close>: \<open>WeatherLog.objects.create\<close>, whose arguments are
  evaluated first and whose row gets the clock's time (\<open>auto_now_add\<close>), then the
  \<open>response_data\<close> of the stored branch, built from the body and from the timestamp
  of the new row.  A row that was inserted stays inserted when a later step of the block
  raises.
\<close>

definition store_and_respond ::
  "'f env \<Rightarrow> 'f world \<Rightarrow> 'f json \<Rightarrow> 'f response \<times> 'f world" where
  "store_and_respond env w data =
     (case required_fields data of
        Inl db_error \<Rightarrow> respond_unstored env w data db_error
      | Inr (name, temp, descr, hum) \<Rightarrow>
          (case insert_values env (name, temp, descr, hum) of
             Inl db_error \<Rightarrow> respond_unstored env w data db_error
           | Inr (c, t, d, h) \<Rightarrow>
               (let weather_log = \<lparr>log_id = next_log_id w, log_city = c,
                      log_temperature = t, log_description = d, log_humidity = h,
                      log_timestamp = auto_now_add_time env\<rparr>;
                    w' = w\<lparr>weather_logs := weather_logs w @ [weather_log],
                           next_log_id := Suc (next_log_id w)\<rparr>
                in case response_data data (isoformat env (log_timestamp weather_log))
                          (strftime env (log_timestamp weather_log))
                          (JDict [(''api_status'', JStr ''success''),
                                  (''stored_in_db'', JBool True),
                                  (''timestamp_iso'', JStr (isoformat env (log_timestamp weather_log))),
                                  (''timestamp_unix'',
                                     JInt (unix_seconds env (log_timestamp weather_log)))]) of
                     Inl db_error \<Rightarrow> respond_unstored env w' data db_error
                   | Inr rd \<Rightarrow> (\<lparr>resp_status = 200, resp_data = rd\<rparr>, w'))))"

text \<open>
  The branches of the view on the status of the upstream response.  On 200 the body is
  parsed with \<open>response.json()\<close> and \<open>data.keys()\<close> is printed, which raises on a body
  that is not an object.  The last branch hands the upstream status to \<open>Response\<close>,
  whose exception reaches the outer handlers like any other of the block.
\<close>

definition on_response ::
  "'f env \<Rightarrow> 'f world \<Rightarrow> string \<Rightarrow> 'f http_response \<Rightarrow> 'f response \<times> 'f world" where
  \<open>on_response env w city response =
     (if status_code response = 200 then
        (case json_body response of
           Inl e \<Rightarrow> (except_outer env e, w)
         | Inr data \<Rightarrow>
             (case data of
                JDict kvs \<Rightarrow> store_and_respond env w data
              | _ \<Rightarrow> (except_outer env AttributeError, w)))
      else if status_code response = 401 then
        (\<lparr>resp_status = 401,
          resp_data = JDict [(''error'', JStr ''Invalid weather API key''),
            (''debug_info'', JStr ''Check your WEATHER_API_KEY in .env file'')]\<rparr>, w)
      else if status_code response = 404 then
        (\<lparr>resp_status = 404,
          resp_data = JDict [(''error'', JStr (''City ''  @ [CHR 0x27] @ city @ [CHR 0x27] @ '' not found'')),
            (''debug_info'',
               JStr ''Try using the exact city name (e.g., "Mumbai" instead of "mumbai")''),
            (''suggestions'',
               JList [JStr ''Mumbai'', JStr ''Delhi'', JStr ''Bangalore'', JStr ''Chennai'',
                      JStr ''Kolkata'', JStr ''Pune''])]\<rparr>, w)
      else
        (case Response
                (JDict [(''error'',
                    JStr (''Weather API returned status '' @ str_int (status_code response))),
                  (''debug_info'',
                     JStr (if body_text response \<noteq> [] then take 200 (body_text response)
                           else ''No response content''))])
                (status_code response) of
           Inl e \<Rightarrow> (except_outer env e, w)
         | Inr r \<Rightarrow> (r, w)))\<close>

text \<open>
  The view.  The result is the \<open>Response\<close> the view returns, before the framework
  renders it, and the world after the request; every call of \<open>requests.get\<close> is
  recorded in \<open>http_calls\<close> before its outcome is known.
\<close>

definition get_weather :: "'f env \<Rightarrow> 'f world \<Rightarrow> string \<Rightarrow> 'f response \<times> 'f world" where
  "get_weather env w city =
     (case config env ''WEATHER_API_KEY'' of
        None \<Rightarrow>
          (\<lparr>resp_status = 500,
            resp_data = JDict [(''error'', JStr ''Weather API key not configured''),
              (''debug_info'', JStr (str_exc env (UndefinedValueError ''WEATHER_API_KEY'')))]\<rparr>,
           w)
      | Some api_key \<Rightarrow>
          if api_key = [] then
            (\<lparr>resp_status = 500,
              resp_data = JDict [(''error'', JStr ''Weather API key not configured''),
                (''debug_info'',
                   JStr ''WEATHER_API_KEY environment variable is empty or not set'')]\<rparr>, w)
          else
            (let url = weather_url city api_key;
                 w1 = w\<lparr>http_calls := http_calls w @ [url]\<rparr>
             in case requests_get env url of
                  Inl e \<Rightarrow> (except_outer env e, w1)
                | Inr response \<Rightarrow> on_response env w1 city response))"

text \<open>
  The status of the answer to a lookup whose call of the weather API did not end in
  HTTP 200: 504 for a timeout, 503 for a connection failure, 500 for any other exception,
  the status of the upstream response when it is from 100 to 599, and 500 when it is
  not.
\<close>

definition mapped_status :: "exc + 'f http_response \<Rightarrow> int" where
  "mapped_status outcome =
     (case outcome of
        Inl Timeout \<Rightarrow> 504
      | Inl ConnectionError \<Rightarrow> 503
      | Inl _ \<Rightarrow> 500
      | Inr r \<Rightarrow> if 100 \<le> status_code r \<and> status_code r \<le> 599 then status_code r else 500)"

text \<open>Reading an entry of a response body, and an entry of its \<open>debug_info\<close>.\<close>

definition field :: "'f response \<Rightarrow> string \<Rightarrow> 'f json option" where
  "field r k = (case resp_data r of JDict kvs \<Rightarrow> map_of kvs k | _ \<Rightarrow> None)"

definition debug_field :: "'f response \<Rightarrow> string \<Rightarrow> 'f json option" where
  "debug_field r k =
     (case field r ''debug_info'' of Some (JDict kvs) \<Rightarrow> map_of kvs k | _ \<Rightarrow> None)"

section \<open>Analytics (tasks/views.py, task_analytics)\<close>

text \<open>\<open>Task.objects.filter(status=s).count()\<close>.\<close>

definition count_status :: "'f world \<Rightarrow> string \<Rightarrow> int" where
  "count_status w s = int (length (filter (\<lambda>t. status t = s) (tasks w)))"

text \<open>
  \<open>Task.objects.values('priority').annotate(count=Count('priority'))\<close>: one entry per
  priority value that occurs, with the number of its tasks.  The order of the groups is
  the database's; here it is the order of the last occurrences in the table.
\<close>

definition priority_stats :: "'f world \<Rightarrow> (string \<times> int) list" where
  "priority_stats w =
     map (\<lambda>p. (p, int (length (filter (\<lambda>t. priority t = p) (tasks w)))))
       (remdups (map priority (tasks w)))"

text \<open>\<open>Task.objects.order_by('-created_at')[:5]\<close> and the list built from it.\<close>

definition recent_tasks :: "'f world \<Rightarrow> task list" where
  "recent_tasks w = take 5 (Task_objects_all w)"

definition recent_tasks_data :: "'f env \<Rightarrow> 'f world \<Rightarrow> 'f json list" where
  "recent_tasks_data env w =
     map (\<lambda>t. JDict [(''id'', JInt (int (task_id t))), (''title'', JStr (title t)),
                     (''status'', JStr (status t)), (''priority'', JStr (priority t)),
                     (''created_at'', JStr (isoformat env (created_at t)))])
       (recent_tasks w)"

text \<open>
  What the two panels are drawn from: the labels, data and colours handed to
  \<open>ax1.pie\<close> and the priorities, counts and colours handed to \<open>ax2.bar\<close>; \<open>None\<close>
  is the panel with the caption \<open>No tasks yet\<close>.
\<close>

definition chart_of :: "int \<Rightarrow> int \<Rightarrow> int \<Rightarrow> (string \<times> int) list \<Rightarrow> chart_spec" where
  "chart_of completed_tasks pending_tasks in_progress_tasks pstats =
     (let status_labels = [''Completed'', ''Pending'', ''In Progress''];
          status_data = [completed_tasks, pending_tasks, in_progress_tasks];
          non_zero_data = filter (\<lambda>(label, d). d > 0) (zip status_labels status_data);
          colors = [(''low'', ''#4CAF50''), (''medium'', ''#FF9800''), (''high'', ''#F44336'')]
      in \<lparr>pie = (if non_zero_data \<noteq> []
                 then Some (map fst non_zero_data, map snd non_zero_data,
                            take (length non_zero_data) [''#4CAF50'', ''#FF9800'', ''#2196F3''])
                 else None),
          bars = (if pstats \<noteq> []
                  then Some (map fst pstats, map snd pstats,
                             map (\<lambda>p. case map_of colors p of Some c \<Rightarrow> c | None \<Rightarrow> ''#607D8B'')
                               (map fst pstats))
                  else None)\<rparr>)"

text \<open>
  The inner \<open>try\<close>: the chart is drawn and encoded, or the exception is printed and
  the chart is \<open>None\<close>.
\<close>

definition make_chart ::
  "'f env \<Rightarrow> 'f world \<Rightarrow> chart_spec \<Rightarrow> string option \<times> 'f world" where
  "make_chart env w spec =
     (let w' = w\<lparr>chart_calls := Suc (chart_calls w)\<rparr>
      in case savefig_b64 env spec of
           Inl chart_error \<Rightarrow> (None, w')
         | Inr png \<Rightarrow> (Some png, w'))"

text \<open>
  The entry \<open>completion_rate\<close>:
  \<open>round((completed_tasks / total_tasks * 100), 2) if total_tasks > 0 else 0\<close>.
\<close>

definition completion_rate :: "'f env \<Rightarrow> int \<Rightarrow> int \<Rightarrow> 'f json" where
  "completion_rate env completed_tasks total_tasks =
     (if total_tasks > 0
      then JFloat (round_ndigits env (mul_int env (truediv env completed_tasks total_tasks) 100) 2)
      else JInt 0)"

text \<open>
  The view.  An exception of a query reaches the outer handler, which answers HTTP 500;
  the chart is drawn only when there is a task; the result is the response and the world
  after the request.
\<close>

definition task_analytics :: "'f env \<Rightarrow> 'f world \<Rightarrow> 'f response \<times> 'f world" where
  "task_analytics env w =
     (case db_query_fault env of
        Some e \<Rightarrow>
          (\<lparr>resp_status = 500,
            resp_data = JDict [(''error'', JStr ''Failed to generate analytics''),
              (''debug_info'', JStr (str_exc env e))]\<rparr>, w)
      | None \<Rightarrow>
          (let total_tasks = int (length (tasks w));
               completed_tasks = count_status w ''completed'';
               pending_tasks = count_status w ''pending'';
               in_progress_tasks = count_status w ''in_progress'';
               pstats = priority_stats w;
               recent = recent_tasks_data env w;
               (chart_image, w') =
                 (if total_tasks > 0
                  then make_chart env w
                         (chart_of completed_tasks pending_tasks in_progress_tasks pstats)
                  else (None, w))
           in (\<lparr>resp_status = 200,
                resp_data = JDict
                  [(''total_tasks'', JInt total_tasks),
                   (''completed_tasks'', JInt completed_tasks),
                   (''pending_tasks'', JInt pending_tasks),
                   (''in_progress_tasks'', JInt in_progress_tasks),
                   (''completion_rate'', completion_rate env completed_tasks total_tasks),
                   (''priority_distribution'',
                      JList (map (\<lambda>(p, c). JDict [(''priority'', JStr p), (''count'', JInt c)])
                               pstats)),
                   (''recent_tasks'', JList recent),
                   (''chart_image'',
                      (case chart_image of None \<Rightarrow> JNull | Some png \<Rightarrow> JStr png)),
                   (''generated_at'', JStr (isoformat env (now env))),
                   (''debug_info'',
                      JDict [(''chart_generated'', JBool (chart_image \<noteq> None)),
                             (''has_tasks'', JBool (total_tasks > 0)),
                             (''recent_tasks_count'', JInt (int (length recent)))])]\<rparr>,
               w')))"

text \<open>The chart the view draws for the tasks of a world.\<close>

definition drawn_chart :: "'f world \<Rightarrow> chart_spec" where
  "drawn_chart w =
     chart_of (count_status w ''completed'') (count_status w ''pending'')
       (count_status w ''in_progress'') (priority_stats w)"

text \<open>The entries of the analytics response that carry statistics.\<close>

definition statistics_fields :: "string list" where
  "statistics_fields =
     [''total_tasks'', ''completed_tasks'', ''pending_tasks'', ''in_progress_tasks'',
      ''completion_rate'', ''priority_distribution'', ''recent_tasks'']"

section \<open>Dashboard (tasks/views.py, dashboard)\<close>

text \<open>
  An \<open>HttpResponse\<close>: the status and the content.  The content is the text in UTF-8,
  so a symbol outside ASCII is written as its bytes and the text of an exception is
  taken in the same encoding.
\<close>

record http_page =
  page_status :: int
  page_body :: string

text \<open>The f-string of the \<open>except\<close> branch, before and after \<open>{e}\<close>.\<close>

definition fallback_head :: string where
  \<open>fallback_head =
     ''\<newline>'' @
     ''        <!DOCTYPE html>\<newline>'' @
     ''        <html>\<newline>'' @
     ''        <head>\<newline>'' @
     ''            <title>Task Manager Dashboard</title>\<newline>'' @
     ''            <style>\<newline>'' @
     ''                body { font-family: Arial, sans-serif; margin: 40px; }\<newline>'' @
     ''                .endpoint { background: #f5f5f5; padding: 10px; margin: 5px 0; border-radius: 5px; }\<newline>'' @
     ''                .error { color: #d32f2f; background: #ffebee; padding: 10px; border-radius: 5px; }\<newline>'' @
     ''            </style>\<newline>'' @
     ''        </head>\<newline>'' @
     ''        <body>\<newline>'' @
     ''            <h1>'' @ [CHR 0xEF, CHR 0xA3, CHR 0xBF] @ [CHR 0xC3, CHR 0xBC] @ [CHR 0xC3, CHR 0xB6] @ [CHR 0xC3, CHR 0x84] @ '' Task Manager Dashboard</h1>\<newline>'' @
     ''            <div class="error">\<newline>'' @
     ''                <strong>Template Error:</strong> ''\<close>

definition fallback_tail :: string where
  \<open>fallback_tail =
     ''\<newline>'' @
     ''            </div>\<newline>'' @
     ''            <h2>Available API Endpoints:</h2>\<newline>'' @
     ''            <div class="endpoint"><a href="/api/tasks/" target="_blank">'' @ [CHR 0xEF, CHR 0xA3, CHR 0xBF] @ [CHR 0xC3, CHR 0xBC] @ [CHR 0xC3, CHR 0xAC] @ [CHR 0xC3, CHR 0xA3] @ '' /api/tasks/ - Task Management</a></div>\<newline>'' @
     ''            <div class="endpoint"><a href="/api/weather/Mumbai/" target="_blank">'' @ [CHR 0xEF, CHR 0xA3, CHR 0xBF] @ [CHR 0xC3, CHR 0xBC] @ [CHR 0xC3, CHR 0xA5] @ [CHR 0xC2, CHR 0xB6] @ [CHR 0xC3, CHR 0x94] @ [CHR 0xE2, CHR 0x88, CHR 0x8F] @ [CHR 0xC3, CHR 0xA8] @ '' /api/weather/Mumbai/ - Weather Data</a></div>\<newline>'' @
     ''            <div class="endpoint"><a href="/api/analytics/" target="_blank">'' @ [CHR 0xEF, CHR 0xA3, CHR 0xBF] @ [CHR 0xC3, CHR 0xBC] @ [CHR 0xC3, CHR 0xAC] @ [CHR 0xC3, CHR 0xA4] @ '' /api/analytics/ - Task Analytics</a></div>\<newline>'' @
     ''            <div class="endpoint"><a href="/api/test/" target="_blank">'' @ [CHR 0xEF, CHR 0xA3, CHR 0xBF] @ [CHR 0xC3, CHR 0xBC] @ [CHR 0xC3, CHR 0x9F] @ [CHR 0xE2, CHR 0x84, CHR 0xA2] @ '' /api/test/ - Test Endpoint</a></div>\<newline>'' @
     ''            <div class="endpoint"><a href="/api/debug-config/" target="_blank">'' @ [CHR 0xEF, CHR 0xA3, CHR 0xBF] @ [CHR 0xC3, CHR 0xBC] @ [CHR 0xC3, CHR 0xAE] @ [CHR 0xC3, CHR 0x9F] @ '' /api/debug-config/ - Configuration Debug</a></div>\<newline>'' @
     ''            \<newline>'' @
     ''            <h2>Quick Test:</h2>\<newline>'' @
     ''            <p>Your Django server is running correctly! All API endpoints should be working.</p>\<newline>'' @
     ''        </body>\<newline>'' @
     ''        </html>\<newline>'' @
     ''        ''\<close>

definition fallback_page :: "string \<Rightarrow> string" where
  "fallback_page e = fallback_head @ e @ fallback_tail"

text \<open>
  The \<open>context\<close> of the template: the number of tasks, the five newest tasks, and the
  numbers of completed and of pending tasks.
\<close>

definition dashboard_context :: "'f world \<Rightarrow> nat \<times> task list \<times> nat \<times> nat" where
  "dashboard_context w =
     (let task_count = length (tasks w);
          recent = recent_tasks w;
          completed_tasks = length (filter (\<lambda>t. status t = ''completed'') (tasks w));
          pending_tasks = length (filter (\<lambda>t. status t = ''pending'') (tasks w))
      in (task_count, recent, completed_tasks, pending_tasks))"

text \<open>
  The view: an exception of the queries or of \<open>render\<close> is caught and answered with
  the fallback page, with the default status of \<open>HttpResponse\<close>.
\<close>

definition dashboard :: "'f env \<Rightarrow> 'f world \<Rightarrow> http_page" where
  "dashboard env w =
     (case db_query_fault env of
        Some e \<Rightarrow> \<lparr>page_status = 200, page_body = fallback_page (str_exc env e)\<rparr>
      | None \<Rightarrow>
          (case render_template env ''dashboard.html'' (dashboard_context w) of
             Inl e \<Rightarrow> \<lparr>page_status = 200, page_body = fallback_page (str_exc env e)\<rparr>
           | Inr html \<Rightarrow> \<lparr>page_status = 200, page_body = html\<rparr>))"

text \<open>The endpoints the fallback page links to.\<close>

definition listed_endpoints :: "string list" where
  "listed_endpoints =
     [''/api/tasks/'', ''/api/weather/Mumbai/'', ''/api/analytics/'', ''/api/test/'',
      ''/api/debug-config/'']"

text \<open>
  The elements of an HTML document that the fallback page has before the text of the
  exception and after it, and the ways by which a page would load a resource from
  elsewhere.
\<close>

definition head_elements :: "string list" where
  \<open>head_elements =
     [''<!DOCTYPE html>'', ''<html>'', ''<head>'', ''<title>'', ''</title>'', ''<style>'',
      ''</style>'', ''</head>'', ''<body>'', ''<h1>'', ''</h1>'', ''<div class="error">'',
      ''<strong>Template Error:</strong>'']\<close>

definition tail_elements :: "string list" where
  \<open>tail_elements =
     [''</div>'', ''<h2>Available API Endpoints:</h2>'', ''href="/api/tasks/"'',
      ''href="/api/weather/Mumbai/"'', ''href="/api/analytics/"'', ''href="/api/test/"'',
      ''href="/api/debug-config/"'', ''</body>'', ''</html>'']\<close>

definition external_references :: "string list" where
  "external_references =
     [''<script'', ''<link'', ''<img'', ''<iframe'', ''<object'', ''<embed'', ''src='',
      ''@import'', ''url('']"

section \<open>Sample inputs\<close>

text \<open>
  Concrete inputs on which the views are evaluated below: exact rationals stand for
  the floats, with rounding to the nearest multiple of a power of ten, ties to even.
\<close>

definition sample_str_exc :: "exc \<Rightarrow> string" where
  "sample_str_exc e =
     (case e of
        KeyError k \<Rightarrow> [CHR 0x27] @ k @ [CHR 0x27]
      | UndefinedValueError k \<Rightarrow> k @ '' not found''
      | Raised m \<Rightarrow> m
      | _ \<Rightarrow> ''error'')"

definition round_half_even :: "rat \<Rightarrow> int \<Rightarrow> rat" where
  "round_half_even x n =
     (let s = 10 ^ nat n; y = x * s; f = \<lfloor>y\<rfloor>; d = y - of_int f
      in of_int (if d < 1 / 2 then f else if 1 / 2 < d then f + 1
                 else if even f then f else f + 1) / s)"

definition sample_env :: "rat env" where
  "sample_env =
     \<lparr>config = [''WEATHER_API_KEY'' \<mapsto> ''k''],
      requests_get = (\<lambda>url. Inl ConnectionError),
      db_connect_fault = None,
      db_insert_fault = None,
      db_query_fault = None,
      user_exists = (\<lambda>u. u = 1),
      now = 1700,
      auto_now_add_time = 1700,
      auto_now_time = 1701,
      isoformat = (\<lambda>t. if t = 1700 then ''2023-11-14T22:13:20+00:00''
                        else ''1970-01-01T00:00:00+00:00''),
      strftime = (\<lambda>t. if t = 1700 then ''2023-11-14 22:13:20'' else ''1970-01-01 00:00:00''),
      unix_seconds = int,
      str_exc = sample_str_exc,
      py_str = (\<lambda>v. ''?''),
      float_of_int = (\<lambda>i. Inr (of_int i)),
      float_of_str = (\<lambda>s. Inl (ValueError ''could not convert string to float'')),
      int_of_float = (\<lambda>f. Inr (if 0 \<le> f then \<lfloor>f\<rfloor> else \<lceil>f\<rceil>)),
      int_of_str = (\<lambda>s. Inl (ValueError ''invalid literal for int()'')),
      truediv = (\<lambda>a b. of_int a / of_int b),
      mul_int = (\<lambda>x n. x * of_int n),
      round_ndigits = round_half_even,
      savefig_b64 = (\<lambda>c. Inr ''iVBORw0KGgo=''),
      render_template = (\<lambda>name ctx. Inr ''<html></html>'')\<rparr>"

definition sample_world :: "rat world" where
  "sample_world =
     \<lparr>tasks = [], weather_logs = [], next_task_id = 1, next_log_id = 1, http_calls = [],
      chart_calls = 0\<rparr>"

definition sample_body :: "rat json" where
  "sample_body =
     JDict [(''name'', JStr ''Pune''),
            (''main'', JDict [(''temp'', JFloat (53 / 2)), (''humidity'', JInt 40)]),
            (''weather'', JList [JDict [(''description'', JStr ''haze'')]])]"

definition upstream :: "int \<Rightarrow> string \<Rightarrow> rat json \<Rightarrow> rat http_response" where
  "upstream sc txt data = \<lparr>status_code = sc, body_text = txt, json_body = Inr data\<rparr>"

definition env_upstream :: "exc + rat http_response \<Rightarrow> rat env" where
  "env_upstream outcome = sample_env\<lparr>requests_get := (\<lambda>url. outcome)\<rparr>"

definition env_db_down :: "rat env" where
  "env_db_down =
     (env_upstream (Inr (upstream 200 ''{}'' sample_body)))
       \<lparr>db_insert_fault := Some (Raised ''database is locked'')\<rparr>"

definition teapot :: "rat http_response" where
  "teapot = \<lparr>status_code = 418, body_text = replicate 250 (CHR ''x''),
             json_body = Inl (Raised ''not JSON'')\<rparr>"

definition empty_502 :: "rat http_response" where
  "empty_502 = \<lparr>status_code = 502, body_text = [], json_body = Inl (Raised ''not JSON'')\<rparr>"

definition sample_task :: "nat \<Rightarrow> string \<Rightarrow> string \<Rightarrow> task" where
  "sample_task n p s =
     \<lparr>task_id = n, title = ''t'', description = [], priority = p, status = s,
      created_at = n, updated_at = n, due_date = None, user = 1\<rparr>"


definition three_tasks :: "rat world" where
  "three_tasks =
     sample_world\<lparr>tasks := [sample_task 1 ''high'' ''completed'', sample_task 2 ''low'' ''pending'',
                            sample_task 3 ''high'' ''in_progress'']\<rparr>"

definition env_no_chart :: "rat env" where
  "env_no_chart = sample_env\<lparr>savefig_b64 := (\<lambda>spec. Inl (Raised ''no display''))\<rparr>"

definition env_no_template :: "rat env" where
  "env_no_template =
     sample_env\<lparr>render_template := (\<lambda>name ctx. Inl (Raised ''dashboard.html''))\<rparr>"


definition null_wind_body :: "rat json" where
  "null_wind_body =
     JDict [(''name'', JStr ''Pune''),
            (''main'', JDict [(''temp'', JFloat (53 / 2)), (''humidity'', JInt 40)]),
            (''weather'', JList [JDict [(''description'', JStr ''haze'')]]),
            (''wind'', JNull)]"

definition env_null_wind :: "rat env" where
  "env_null_wind =
     (env_upstream (Inr (upstream 200 ''{}'' null_wind_body)))
       \<lparr>db_insert_fault := Some (Raised ''database is locked'')\<rparr>"

definition humid_body :: "rat json" where
  "humid_body =
     JDict [(''name'', JStr ''Pune''),
            (''main'', JDict [(''temp'', JInt 26), (''humidity'', JFloat (407 / 10))]),
            (''weather'', JList [JDict [(''description'', JStr ''haze'')]]),
            (''wind'', JDict [(''speed'', JFloat 3)]),
            (''sys'', JDict [(''country'', JStr ''IN'')])]"

definition status_999 :: "rat http_response" where
  "status_999 = \<lparr>status_code = 999, body_text = ''blocked'', json_body = Inl (Raised ''not JSON'')\<rparr>"

section \<open>Properties of the task listing\<close>

lemma set_Task_objects_all: "set (Task_objects_all w) = set (tasks w)"
  by (simp add: Task_objects_all_def)

text \<open>
  C7.  Listing with \<open>?status=completed\<close> returns exactly the stored tasks whose status
  equals \<open>completed\<close>, and listing with \<open>?status=completed&priority=high\<close> returns
  exactly the stored tasks whose status equals \<open>completed\<close> and whose priority equals
  \<open>high\<close>; in both cases the rows come in the order of the unfiltered listing.
\<close>

theorem get_queryset_status_priority:
  "set (get_queryset w [''status'' \<mapsto> ''completed''])
     = {t \<in> set (tasks w). status t = ''completed''}
   \<and> get_queryset w [''status'' \<mapsto> ''completed'']
     = filter (\<lambda>t. status t = ''completed'') (get_queryset w Map.empty)
   \<and> set (get_queryset w [''status'' \<mapsto> ''completed'', ''priority'' \<mapsto> ''high''])
     = {t \<in> set (tasks w). status t = ''completed''} \<inter> {t \<in> set (tasks w). priority t = ''high''}
   \<and> get_queryset w [''status'' \<mapsto> ''completed'', ''priority'' \<mapsto> ''high'']
     = filter (\<lambda>t. status t = ''completed'' \<and> priority t = ''high'') (get_queryset w Map.empty)"
  by (auto simp add: get_queryset_def filter_status_def filter_priority_def
        set_Task_objects_all)

text \<open>
  C10.  A \<open>status\<close> or \<open>priority\<close> query parameter that is present with the empty
  string as its value applies no filter: the listing is the one obtained with that
  parameter absent, whatever the other parameters are.
\<close>

theorem get_queryset_empty_param_ignored:
  "get_queryset w (qp(''status'' \<mapsto> '''')) = get_queryset w (qp(''status'' := None))
   \<and> get_queryset w (qp(''priority'' \<mapsto> '''')) = get_queryset w (qp(''priority'' := None))
   \<and> get_queryset w [''status'' \<mapsto> ''''] = get_queryset w Map.empty"
  by (simp add: get_queryset_def filter_status_def filter_priority_def)

section \<open>Properties of the weather lookup\<close>

lemma required_fields_dict:
  "required_fields data = Inr r \<Longrightarrow> \<exists>kvs. data = JDict kvs"
  by (cases data) (simp_all add: required_fields_def)

lemma and_then_Inr:
  "and_then m f = Inr y \<longleftrightarrow> (\<exists>x. m = Inr x \<and> f x = Inr y)"
  by (cases m) simp_all

lemma optional_fields_keys:
  "optional_fields data = Inr opt \<Longrightarrow>
     map fst opt = [''feels_like'', ''pressure'', ''visibility'', ''wind_speed'', ''country'']"
  unfolding optional_fields_def and_then_Inr by auto

lemma get_method_object:
  "object_or_absent data k \<Longrightarrow> \<exists>kvs. get_method data k (JDict []) = Inr (JDict kvs)"
  by (auto simp add: object_or_absent_def split: sum.splits json.splits)

lemma optional_fields_readable:
  assumes "required_fields data = Inr q"
    and "object_or_absent data ''wind''" and "object_or_absent data ''sys''"
  shows "\<exists>opt. optional_fields data = Inr opt"
proof -
  obtain kvs where d: "data = JDict kvs"
    using required_fields_dict [OF assms(1)] by blast
  obtain m where m: "subscript data ''main'' = Inr m" and "\<exists>t. subscript m ''temp'' = Inr t"
    using assms(1) unfolding required_fields_def and_then_Inr by blast
  then obtain mk where mk: "m = JDict mk"
    by (cases m) auto
  obtain wk where wk: "get_method data ''wind'' (JDict []) = Inr (JDict wk)"
    using get_method_object [OF assms(2)] by blast
  obtain sk where sk: "get_method data ''sys'' (JDict []) = Inr (JDict sk)"
    using get_method_object [OF assms(3)] by blast
  show ?thesis
    using d m mk wk sk by (simp add: optional_fields_def)
qed

lemma optional_fields_objects:
  assumes "optional_fields data = Inr opt"
  shows "object_or_absent data ''wind'' \<and> object_or_absent data ''sys''"
  using assms unfolding optional_fields_def and_then_Inr object_or_absent_def
  by (auto split: json.splits sum.splits elim!: get_method.elims)

lemma response_data_Inr:
  assumes "required_fields data = Inr (name, temp, descr, hum)"
    and "optional_fields data = Inr opt"
  shows "response_data data t1 t2 dbg =
     Inr (JDict ([(''city'', name), (''temperature'', temp), (''description'', descr),
                  (''humidity'', hum), (''logged_at'', JStr t1),
                  (''logged_at_readable'', JStr t2)]
                 @ opt @ [(''debug_info'', dbg)]))"
  using assms by (simp add: response_data_def)

lemma map_of_opt_debug:
  assumes "map fst opt = [''feels_like'', ''pressure'', ''visibility'', ''wind_speed'', ''country'']"
  shows "map_of (opt @ [(''debug_info'', dbg)]) ''debug_info'' = Some dbg"
    and "map_of (opt @ [(''debug_info'', dbg)]) ''error'' = None"
proof -
  have "''debug_info'' \<notin> set (map fst opt)" "''error'' \<notin> set (map fst opt)"
    unfolding assms by simp_all
  then have "map_of opt ''debug_info'' = None" "map_of opt ''error'' = None"
    by (simp_all add: map_of_eq_None_iff)
  then show "map_of (opt @ [(''debug_info'', dbg)]) ''debug_info'' = Some dbg"
    and "map_of (opt @ [(''debug_info'', dbg)]) ''error'' = None"
    by (simp_all add: map_add_def)
qed


lemma field_response_data:
  assumes "map fst opt = [''feels_like'', ''pressure'', ''visibility'', ''wind_speed'', ''country'']"
    and "rd = JDict ([(''city'', name), (''temperature'', temp), (''description'', descr),
                  (''humidity'', hum), (''logged_at'', JStr t1),
                  (''logged_at_readable'', JStr t2)]
                 @ opt @ [(''debug_info'', JDict dbg)])"
  shows "field \<lparr>resp_status = st, resp_data = rd\<rparr> ''city'' = Some name"
    and "field \<lparr>resp_status = st, resp_data = rd\<rparr> ''temperature'' = Some temp"
    and "field \<lparr>resp_status = st, resp_data = rd\<rparr> ''description'' = Some descr"
    and "field \<lparr>resp_status = st, resp_data = rd\<rparr> ''humidity'' = Some hum"
    and "field \<lparr>resp_status = st, resp_data = rd\<rparr> ''logged_at'' = Some (JStr t1)"
    and "field \<lparr>resp_status = st, resp_data = rd\<rparr> ''error'' = None"
    and "debug_field \<lparr>resp_status = st, resp_data = rd\<rparr> k = map_of dbg k"
  using map_of_opt_debug [OF assms(1)]
  by (simp_all add: field_def debug_field_def assms(2))

lemma get_weather_200:
  assumes "config env ''WEATHER_API_KEY'' = Some api_key" and "api_key \<noteq> []"
    and "requests_get env (weather_url city api_key) = Inr r"
    and "status_code r = 200" and "json_body r = Inr data"
    and "required_fields data = Inr q"
  shows "get_weather env w city =
           store_and_respond env (w\<lparr>http_calls := http_calls w @ [weather_url city api_key]\<rparr>) data"
proof -
  obtain kvs where "data = JDict kvs"
    using required_fields_dict [OF assms(6)] by blast
  then show ?thesis
    using assms(1-5) by (simp add: get_weather_def on_response_def)
qed

lemma insert_values_Inr:
  assumes "insert_values env (name, temp, descr, hum) = Inr (c, t, d, h)"
  shows "char_column env name = Some c" and "float_column env temp = Inr (Some t)"
    and "char_column env descr = Some d" and "int_column env hum = Inr (Some h)"
  using assms
  by (auto simp add: insert_values_def and_then_Inr
      split: option.splits sum.splits prod.splits)

lemma column_same:
  "char_column env (JStr s) = Some s"
  "float_column env (JFloat f) = Inr (Some f)"
  "int_column env (JInt i) = Inr (Some i)"
  by (simp_all add: char_column_def float_column_def int_column_def)


text \<open>
  C2, as amended.  When the weather API answers HTTP 200 with a body that holds
  \<open>name\<close>, \<open>main.temp\<close>, \<open>weather[0].description\<close> and \<open>main.humidity\<close> and
  whose \<open>wind\<close> and \<open>sys\<close> entries, where present, are objects, and the insert of
  the \<open>WeatherLog\<close> row does not raise, the response holds the city, temperature and
  humidity of the body and \<open>debug_info.stored_in_db = true\<close>, and exactly one row is
  added to the weather log.  The row holds that city, temperature, description and
  humidity as converted to the types of its columns, which are the same values when the
  name and the description are strings, the temperature is a float and the humidity is
  an integer.  The task table and the earlier rows of the weather log are as before.
\<close>

theorem get_weather_stored:
  assumes "config env ''WEATHER_API_KEY'' = Some api_key" and "api_key \<noteq> []"
    and "requests_get env (weather_url city api_key) = Inr r"
    and "status_code r = 200" and "json_body r = Inr data"
    and "required_fields data = Inr (name, temp, descr, hum)"
    and "object_or_absent data ''wind''" and "object_or_absent data ''sys''"
    and "insert_values env (name, temp, descr, hum) = Inr (c, t, d, h)"
    and "res = get_weather env w city"
  shows "resp_status (fst res) = 200
       \<and> field (fst res) ''city'' = Some name
       \<and> field (fst res) ''temperature'' = Some temp
       \<and> field (fst res) ''humidity'' = Some hum
       \<and> debug_field (fst res) ''stored_in_db'' = Some (JBool True)
       \<and> weather_logs (snd res) =
           weather_logs w @ [\<lparr>log_id = next_log_id w, log_city = c, log_temperature = t,
              log_description = d, log_humidity = h, log_timestamp = auto_now_add_time env\<rparr>]
       \<and> char_column env name = Some c \<and> float_column env temp = Inr (Some t)
       \<and> char_column env descr = Some d \<and> int_column env hum = Inr (Some h)
       \<and> (\<forall>s. name = JStr s \<longrightarrow> c = s) \<and> (\<forall>f. temp = JFloat f \<longrightarrow> t = f)
       \<and> (\<forall>s. descr = JStr s \<longrightarrow> d = s) \<and> (\<forall>i. hum = JInt i \<longrightarrow> h = i)
       \<and> tasks (snd res) = tasks w"
proof -
  obtain opt where opt: "optional_fields data = Inr opt"
    using optional_fields_readable [OF assms(6-8)] by blast
  let ?w1 = "w\<lparr>http_calls := http_calls w @ [weather_url city api_key]\<rparr>"
  let ?row = "\<lparr>log_id = next_log_id w, log_city = c, log_temperature = t,
              log_description = d, log_humidity = h, log_timestamp = auto_now_add_time env\<rparr>"
  let ?w2 = "?w1\<lparr>weather_logs := weather_logs w @ [?row], next_log_id := Suc (next_log_id w)\<rparr>"
  let ?ts = "auto_now_add_time env"
  let ?dbg = "[(''api_status'', JStr ''success''), (''stored_in_db'', JBool True),
               (''timestamp_iso'', JStr (isoformat env ?ts)),
               (''timestamp_unix'', JInt (unix_seconds env ?ts))]"
  let ?rd = "JDict ([(''city'', name), (''temperature'', temp), (''description'', descr),
                  (''humidity'', hum), (''logged_at'', JStr (isoformat env ?ts)),
                  (''logged_at_readable'', JStr (strftime env ?ts))]
                 @ opt @ [(''debug_info'', JDict ?dbg)])"
  have keys: "map fst opt = [''feels_like'', ''pressure'', ''visibility'', ''wind_speed'', ''country'']"
    using opt by (rule optional_fields_keys)
  note cols = insert_values_Inr [OF assms(9)]
  have same: "(\<forall>s. name = JStr s \<longrightarrow> c = s) \<and> (\<forall>f. temp = JFloat f \<longrightarrow> t = f)
       \<and> (\<forall>s. descr = JStr s \<longrightarrow> d = s) \<and> (\<forall>i. hum = JInt i \<longrightarrow> h = i)"
    using cols by (auto simp add: column_same)
  have "res = store_and_respond env ?w1 data"
    using get_weather_200 [OF assms(1-6)] assms(10) by simp
  also have "\<dots> = (\<lparr>resp_status = 200, resp_data = ?rd\<rparr>, ?w2)"
    using assms(6,9) response_data_Inr [OF assms(6) opt]
    by (simp add: store_and_respond_def Let_def)
  finally have res: "res = (\<lparr>resp_status = 200, resp_data = ?rd\<rparr>, ?w2)" .
  show ?thesis
    unfolding res fst_conv snd_conv
    using field_response_data [OF keys refl, of 200 name temp descr hum _ _ ?dbg] cols same
    by simp
qed

text \<open>
  C3.  With the API key absent or empty the lookup answers HTTP 500 with the \<open>error\<close>
  entry \<open>Weather API key not configured\<close>, and it calls the weather API zero times:
  the record of the calls, and the whole world, are as before.
\<close>

theorem get_weather_no_api_key:
  assumes "config env ''WEATHER_API_KEY'' = None \<or> config env ''WEATHER_API_KEY'' = Some []"
  shows "resp_status (fst (get_weather env w city)) = 500
       \<and> field (fst (get_weather env w city)) ''error''
            = Some (JStr ''Weather API key not configured'')
       \<and> http_calls (snd (get_weather env w city)) = http_calls w
       \<and> snd (get_weather env w city) = w"
  using assms by (auto simp add: get_weather_def field_def)


lemma except_outer_status:
  "resp_status (except_outer env e) = mapped_status (Inl e)"
  "\<exists>msg. field (except_outer env e) ''error'' = Some (JStr msg)"
  by (cases e; simp add: except_outer_def mapped_status_def field_def)+

text \<open>
  C4, as amended.  With a key configured, a lookup whose call of the weather API does
  not end in HTTP 200 answers as follows: 401 for an upstream 401; 404 for an upstream
  404, together with a non-empty list of suggested cities; for any other upstream status
  from 100 to 599 that same status, with a \<open>debug_info\<close> that is the first 200
  characters of the upstream text when that text is not empty and the fixed text
  \<open>No response content\<close> when it is empty, at most 200 characters either way; 500 for
  an upstream status outside 100 to 599, which \<open>Response\<close> refuses; 504 for a timeout;
  503 for a connection failure; 500 for any other exception.  The body always has an
  \<open>error\<close> entry, and nothing is stored.
\<close>

theorem get_weather_upstream_failure:
  assumes "config env ''WEATHER_API_KEY'' = Some api_key" and "api_key \<noteq> []"
    and "outcome = requests_get env (weather_url city api_key)"
    and "\<forall>r. outcome = Inr r \<longrightarrow> status_code r \<noteq> 200"
    and "res = get_weather env w city"
  shows "resp_status (fst res) = mapped_status outcome
       \<and> (\<exists>msg. field (fst res) ''error'' = Some (JStr msg))
       \<and> (\<forall>r. outcome = Inr r \<and> status_code r = 404 \<longrightarrow>
            field (fst res) ''suggestions'' =
              Some (JList [JStr ''Mumbai'', JStr ''Delhi'', JStr ''Bangalore'', JStr ''Chennai'',
                           JStr ''Kolkata'', JStr ''Pune'']))
       \<and> (\<forall>r. outcome = Inr r \<and> 100 \<le> status_code r \<and> status_code r \<le> 599
              \<and> status_code r \<noteq> 401 \<and> status_code r \<noteq> 404 \<longrightarrow>
            resp_status (fst res) = status_code r
          \<and> field (fst res) ''debug_info'' =
              Some (JStr (if body_text r \<noteq> [] then take 200 (body_text r)
                          else ''No response content'')))
       \<and> (\<forall>r. outcome = Inr r \<and> (status_code r < 100 \<or> 599 < status_code r) \<longrightarrow>
            resp_status (fst res) = 500)
       \<and> (\<forall>s. field (fst res) ''debug_info'' = Some (JStr s)
              \<and> (\<exists>r. outcome = Inr r \<and> 100 \<le> status_code r \<and> status_code r \<le> 599) \<longrightarrow>
            length s \<le> 200)
       \<and> snd res = w\<lparr>http_calls := http_calls w @ [weather_url city api_key]\<rparr>"
proof (cases outcome)
  case (Inl e)
  then have rq: "requests_get env (weather_url city api_key) = Inl e"
    using assms(3) by simp
  have "res = (except_outer env e, w\<lparr>http_calls := http_calls w @ [weather_url city api_key]\<rparr>)"
    using assms(1,2,5) rq by (simp add: get_weather_def)
  then show ?thesis
    using Inl except_outer_status [of env e] by simp
next
  case (Inr r)
  then have ne: "status_code r \<noteq> 200"
    using assms(4) by simp
  have rq: "requests_get env (weather_url city api_key) = Inr r"
    using assms(3) Inr by simp
  have res: "res = on_response env (w\<lparr>http_calls := http_calls w @ [weather_url city api_key]\<rparr>) city r"
    using assms(1,2,5) rq by (simp add: get_weather_def Let_def)
  show ?thesis
    unfolding res using ne Inr
    by (auto simp add: on_response_def mapped_status_def field_def Response_def
        except_outer_def)
qed

section \<open>The weather lookup on sample inputs\<close>

lemmas sample_defs = sample_env_def sample_world_def sample_body_def upstream_def
  sample_str_exc_def env_upstream_def env_db_down_def env_null_wind_def null_wind_body_def
  humid_body_def

lemmas weather_defs = get_weather_def on_response_def store_and_respond_def
  respond_unstored_def response_data_def required_fields_def optional_fields_def
  except_outer_def field_def debug_field_def weather_url_def insert_values_def
  char_column_def float_column_def int_column_def Response_def

lemma sample_body_fields:
  "required_fields sample_body = Inr (JStr ''Pune'', JFloat (53 / 2), JStr ''haze'', JInt 40)"
  "object_or_absent sample_body ''wind''" "object_or_absent sample_body ''sys''"
  by (simp_all add: required_fields_def object_or_absent_def sample_body_def)

lemma humid_body_fields:
  "required_fields humid_body = Inr (JStr ''Pune'', JInt 26, JStr ''haze'', JFloat (407 / 10))"
  "object_or_absent humid_body ''wind''" "object_or_absent humid_body ''sys''"
  by (simp_all add: required_fields_def object_or_absent_def humid_body_def)

lemma env_upstream_key:
  "config (env_upstream outcome) ''WEATHER_API_KEY'' = Some ''k''" "''k'' \<noteq> ([] :: string)"
  "requests_get (env_upstream outcome) url = outcome"
  by (simp_all add: sample_defs)

lemma upstream_fields:
  "status_code (upstream sc txt data) = sc" "json_body (upstream sc txt data) = Inr data"
  by (simp_all add: upstream_def)

lemma floor_407: "\<lfloor>407 / 10 :: rat\<rfloor> = 40"
  by (rule floor_unique) simp_all

lemma sample_inserts:
  "insert_values env_db_down (JStr ''Pune'', JFloat (53 / 2), JStr ''haze'', JInt 40)
     = Inl (Raised ''database is locked'')"
  "insert_values (env_upstream outcome) (JStr ''Pune'', JFloat (53 / 2), JStr ''haze'', JInt 40)
     = Inr (''Pune'', 53 / 2, ''haze'', 40)"
  "insert_values (env_upstream outcome) (JStr ''Pune'', JInt 26, JStr ''haze'', JFloat (407 / 10))
     = Inr (''Pune'', 26, ''haze'', 40)"
  by (simp_all add: insert_values_def char_column_def float_column_def int_column_def
      sample_defs floor_407)



text \<open>
  C2 as stated fails: the weather API answers HTTP 200, the insert raises, and the
  response has \<open>debug_info.stored_in_db = false\<close> while no row is created.
\<close>

theorem get_weather_stored_counterexample:
  "status_code (upstream 200 ''{}'' sample_body) = 200
   \<and> requests_get env_db_down (weather_url ''Pune'' ''k'') = Inr (upstream 200 ''{}'' sample_body)
   \<and> debug_field (fst (get_weather env_db_down sample_world ''Pune'')) ''stored_in_db''
        = Some (JBool False)
   \<and> weather_logs (snd (get_weather env_db_down sample_world ''Pune''))
        = weather_logs sample_world"
  by (simp add: weather_defs sample_defs)

theorem get_weather_stored_witness:
  "debug_field (fst (get_weather (env_upstream (Inr (upstream 200 ''{}'' sample_body)))
                       sample_world ''Pune'')) ''stored_in_db'' = Some (JBool True)
   \<and> weather_logs (snd (get_weather (env_upstream (Inr (upstream 200 ''{}'' sample_body)))
                       sample_world ''Pune''))
        = [\<lparr>log_id = 1, log_city = ''Pune'', log_temperature = 53 / 2,
            log_description = ''haze'', log_humidity = 40, log_timestamp = 1700\<rparr>]
   \<and> field (fst (get_weather (env_upstream (Inr (upstream 200 ''{}'' humid_body)))
                       sample_world ''Pune'')) ''humidity'' = Some (JFloat (407 / 10))
   \<and> weather_logs (snd (get_weather (env_upstream (Inr (upstream 200 ''{}'' humid_body)))
                       sample_world ''Pune''))
        = [\<lparr>log_id = 1, log_city = ''Pune'', log_temperature = 26,
            log_description = ''haze'', log_humidity = 40, log_timestamp = 1700\<rparr>]"
proof -
  note th = get_weather_stored [OF env_upstream_key upstream_fields, where w = sample_world]
  show ?thesis
    using th [OF sample_body_fields sample_inserts(2) refl]
      th [OF humid_body_fields sample_inserts(3) refl]
    by (simp add: sample_defs)
qed

theorem get_weather_no_api_key_witness:
  "resp_status (fst (get_weather (sample_env\<lparr>config := Map.empty\<rparr>) sample_world ''Pune'')) = 500
   \<and> http_calls (snd (get_weather (sample_env\<lparr>config := Map.empty\<rparr>) sample_world ''Pune'')) = []
   \<and> resp_status (fst (get_weather (sample_env\<lparr>config := [''WEATHER_API_KEY'' \<mapsto> '''']\<rparr>)
                          sample_world ''Pune'')) = 500
   \<and> http_calls (snd (get_weather (sample_env\<lparr>config := [''WEATHER_API_KEY'' \<mapsto> '''']\<rparr>)
                          sample_world ''Pune'')) = []"
proof -
  have a: "config (sample_env\<lparr>config := Map.empty\<rparr>) ''WEATHER_API_KEY'' = None
           \<or> config (sample_env\<lparr>config := Map.empty\<rparr>) ''WEATHER_API_KEY'' = Some []"
    by simp
  have b: "config (sample_env\<lparr>config := [''WEATHER_API_KEY'' \<mapsto> '''']\<rparr>) ''WEATHER_API_KEY'' = None
           \<or> config (sample_env\<lparr>config := [''WEATHER_API_KEY'' \<mapsto> '''']\<rparr>) ''WEATHER_API_KEY''
               = Some []"
    by simp
  show ?thesis
    using get_weather_no_api_key [OF a, where w = sample_world and city = "''Pune''"]
      get_weather_no_api_key [OF b, where w = sample_world and city = "''Pune''"]
    by (simp add: sample_world_def)
qed

text \<open>
  C4 as stated fails twice: for an upstream HTTP 502 with an empty text the
  \<open>debug_info\<close> is \<open>No response content\<close>, which is no excerpt of the upstream text,
  and an upstream status 999 is answered with HTTP 500, not with 999.
\<close>

theorem get_weather_excerpt_counterexample:
  "status_code empty_502 = 502
   \<and> field (fst (get_weather (env_upstream (Inr empty_502)) sample_world ''Pune'')) ''debug_info''
        = Some (JStr ''No response content'')
   \<and> \<not> prefix ''No response content'' (body_text empty_502)
   \<and> status_code status_999 = 999
   \<and> resp_status (fst (get_weather (env_upstream (Inr status_999)) sample_world ''Pune'')) = 500"
  by (simp add: weather_defs sample_defs empty_502_def status_999_def)

theorem get_weather_upstream_failure_witness:
  "resp_status (fst (get_weather (env_upstream (Inl Timeout)) sample_world ''Pune'')) = 504
   \<and> resp_status (fst (get_weather (env_upstream (Inl ConnectionError)) sample_world ''Pune'')) = 503
   \<and> resp_status (fst (get_weather (env_upstream (Inr (upstream 401 ''{}'' JNull)))
                          sample_world ''Pune'')) = 401
   \<and> resp_status (fst (get_weather (env_upstream (Inr (upstream 404 ''{}'' JNull)))
                          sample_world ''Atlantis'')) = 404
   \<and> field (fst (get_weather (env_upstream (Inr (upstream 404 ''{}'' JNull)))
                          sample_world ''Atlantis'')) ''suggestions''
        = Some (JList [JStr ''Mumbai'', JStr ''Delhi'', JStr ''Bangalore'', JStr ''Chennai'',
                       JStr ''Kolkata'', JStr ''Pune''])
   \<and> resp_status (fst (get_weather (env_upstream (Inr teapot)) sample_world ''Pune'')) = 418
   \<and> field (fst (get_weather (env_upstream (Inr teapot)) sample_world ''Pune'')) ''debug_info''
        = Some (JStr (replicate 200 (CHR ''x'')))
   \<and> resp_status (fst (get_weather (env_upstream (Inr status_999)) sample_world ''Pune'')) = 500"
proof -
  have ne: "\<forall>r. (Inl Timeout :: exc + rat http_response) = Inr r \<longrightarrow> status_code r \<noteq> 200"
    "\<forall>r. (Inl ConnectionError :: exc + rat http_response) = Inr r \<longrightarrow> status_code r \<noteq> 200"
    "\<forall>r. Inr (upstream 401 ''{}'' JNull) = Inr r \<longrightarrow> status_code r \<noteq> 200"
    "\<forall>r. Inr (upstream 404 ''{}'' JNull) = Inr r \<longrightarrow> status_code r \<noteq> 200"
    "\<forall>r. Inr teapot = Inr r \<longrightarrow> status_code r \<noteq> 200"
    "\<forall>r. Inr status_999 = Inr r \<longrightarrow> status_code r \<noteq> 200"
    by (auto simp add: upstream_def teapot_def status_999_def)
  note th = get_weather_upstream_failure [OF env_upstream_key(1,2) env_upstream_key(3) [symmetric] _ refl]
  show ?thesis
    using th [OF ne(1), where city = "''Pune''" and w = sample_world]
      th [OF ne(2), where city = "''Pune''" and w = sample_world]
      th [OF ne(3), where city = "''Pune''" and w = sample_world]
      th [OF ne(4), where city = "''Atlantis''" and w = sample_world]
      th [OF ne(5), where city = "''Pune''" and w = sample_world]
      th [OF ne(6), where city = "''Pune''" and w = sample_world]
    by (simp add: mapped_status_def upstream_def teapot_def status_999_def)
qed

section \<open>Properties of the analytics and of the dashboard\<close>

lemma task_analytics_no_tasks:
  assumes "db_query_fault env = None" and "tasks w = []"
  shows "task_analytics env w =
    (\<lparr>resp_status = 200,
      resp_data = JDict
        [(''total_tasks'', JInt 0), (''completed_tasks'', JInt 0), (''pending_tasks'', JInt 0),
         (''in_progress_tasks'', JInt 0), (''completion_rate'', JInt 0),
         (''priority_distribution'', JList []), (''recent_tasks'', JList []),
         (''chart_image'', JNull), (''generated_at'', JStr (isoformat env (now env))),
         (''debug_info'', JDict [(''chart_generated'', JBool False), (''has_tasks'', JBool False),
                                 (''recent_tasks_count'', JInt 0)])]\<rparr>, w)"
  using assms
  by (simp add: task_analytics_def count_status_def priority_stats_def recent_tasks_data_def
      recent_tasks_def Task_objects_all_def completion_rate_def)

lemma task_analytics_some_tasks:
  assumes "db_query_fault env = None" and "tasks w \<noteq> []"
  shows "task_analytics env w =
    (\<lparr>resp_status = 200,
      resp_data = JDict
        [(''total_tasks'', JInt (int (length (tasks w)))),
         (''completed_tasks'', JInt (count_status w ''completed'')),
         (''pending_tasks'', JInt (count_status w ''pending'')),
         (''in_progress_tasks'', JInt (count_status w ''in_progress'')),
         (''completion_rate'',
            JFloat (round_ndigits env
              (mul_int env (truediv env (count_status w ''completed'') (int (length (tasks w)))) 100)
              2)),
         (''priority_distribution'',
            JList (map (\<lambda>(p, c). JDict [(''priority'', JStr p), (''count'', JInt c)])
                     (priority_stats w))),
         (''recent_tasks'', JList (recent_tasks_data env w)),
         (''chart_image'',
            (case savefig_b64 env (drawn_chart w) of Inl e \<Rightarrow> JNull | Inr png \<Rightarrow> JStr png)),
         (''generated_at'', JStr (isoformat env (now env))),
         (''debug_info'',
            JDict [(''chart_generated'',
                      JBool (case savefig_b64 env (drawn_chart w) of Inl e \<Rightarrow> False | Inr png \<Rightarrow> True)),
                   (''has_tasks'', JBool True),
                   (''recent_tasks_count'', JInt (int (length (recent_tasks_data env w))))])]\<rparr>,
     w\<lparr>chart_calls := Suc (chart_calls w)\<rparr>)"
  using assms
  by (simp add: task_analytics_def make_chart_def drawn_chart_def completion_rate_def Let_def
      split: sum.split)

text \<open>
  C5.  When the queries succeed: with no task in the store the analytics response has
  \<open>completion_rate = 0\<close> and \<open>chart_image = null\<close>, and no chart is drawn; with
  \<open>N > 0\<close> tasks of which \<open>C\<close> have the status \<open>completed\<close>, \<open>completion_rate\<close>
  is \<open>round(C / N * 100, 2)\<close>, computed with the floats' own division,
  multiplication and rounding.
\<close>

theorem task_analytics_completion_rate:
  assumes "db_query_fault env = None"
    and "res = task_analytics env w"
    and "N = int (length (tasks w))"
    and "C = int (length (filter (\<lambda>t. status t = ''completed'') (tasks w)))"
  shows "(N = 0 \<longrightarrow>
            field (fst res) ''completion_rate'' = Some (JInt 0)
          \<and> field (fst res) ''chart_image'' = Some JNull
          \<and> chart_calls (snd res) = chart_calls w)
       \<and> (N > 0 \<longrightarrow>
            field (fst res) ''completion_rate''
              = Some (JFloat (round_ndigits env (mul_int env (truediv env C N) 100) 2)))"
proof (cases "tasks w = []")
  case True
  then show ?thesis
    using task_analytics_no_tasks [OF assms(1) True] assms(2,3)
    by (simp add: field_def)
next
  case False
  then show ?thesis
    using task_analytics_some_tasks [OF assms(1) False] assms(2,3,4)
    by (simp add: field_def count_status_def)
qed

text \<open>
  C6.  When the drawing of the chart raises during an analytics request, the request
  answers HTTP 200 with \<open>chart_image = null\<close>, and each of \<open>total_tasks\<close>,
  \<open>completed_tasks\<close>, \<open>pending_tasks\<close>, \<open>in_progress_tasks\<close>,
  \<open>completion_rate\<close>, \<open>priority_distribution\<close> and \<open>recent_tasks\<close> is present and
  is what it is when the drawing succeeds.
\<close>

theorem task_analytics_chart_failure:
  assumes "db_query_fault env = None" and "tasks w \<noteq> []"
    and "savefig_b64 env (drawn_chart w) = Inl chart_error"
    and "env' = env\<lparr>savefig_b64 := (\<lambda>spec. Inr png)\<rparr>"
  shows "resp_status (fst (task_analytics env w)) = 200
       \<and> field (fst (task_analytics env w)) ''chart_image'' = Some JNull
       \<and> field (fst (task_analytics env' w)) ''chart_image'' = Some (JStr png)
       \<and> (\<forall>k \<in> set statistics_fields.
            field (fst (task_analytics env w)) k \<noteq> None
          \<and> field (fst (task_analytics env w)) k = field (fst (task_analytics env' w)) k)"
proof -
  have q: "db_query_fault env' = None"
    using assms(1,4) by simp
  show ?thesis
    unfolding task_analytics_some_tasks [OF assms(1,2)] task_analytics_some_tasks [OF q assms(2)]
    using assms(3,4)
    by (simp add: field_def statistics_fields_def recent_tasks_data_def)
qed

lemma sublist_fallback_tail:
  "sublist ''/api/tasks/'' fallback_tail"
  "sublist ''/api/weather/Mumbai/'' fallback_tail"
  "sublist ''/api/analytics/'' fallback_tail"
  "sublist ''/api/test/'' fallback_tail"
  "sublist ''/api/debug-config/'' fallback_tail"
  by (simp_all add: fallback_tail_def sublist_code(3))

lemma sublist_later: "sublist xs zs \<Longrightarrow> sublist xs (ys @ zs)"
  by (metis append.assoc sublist_def)

lemma fallback_page_lists:
  "p \<in> set listed_endpoints \<Longrightarrow> sublist p (fallback_page msg)"
  unfolding fallback_page_def listed_endpoints_def
  using sublist_fallback_tail
  by (auto intro!: sublist_later)

lemma fallback_head_elements: "list_all (\<lambda>m. sublist m fallback_head) head_elements"
  by (simp add: head_elements_def fallback_head_def sublist_code(3))

lemma fallback_tail_elements: "list_all (\<lambda>m. sublist m fallback_tail) tail_elements"
  by (simp add: tail_elements_def fallback_tail_def sublist_code(3))

lemma fallback_head_no_external:
  "list_all (\<lambda>m. \<not> sublist m fallback_head) external_references"
  by (simp add: external_references_def fallback_head_def sublist_code(3))

lemma fallback_tail_no_external:
  "list_all (\<lambda>m. \<not> sublist m fallback_tail) external_references"
  by (simp add: external_references_def fallback_tail_def sublist_code(3))

lemma fallback_head_opens:
  "prefix (''\<newline>        <!DOCTYPE html>\<newline>        <html>\<newline>        <head>\<newline>'')
     fallback_head"
  by (simp add: fallback_head_def)

lemma fallback_tail_closes:
  "suffix (''        </body>\<newline>        </html>\<newline>        '') fallback_tail"
proof -
  have "drop 863 fallback_tail = ''        </body>\<newline>        </html>\<newline>        ''"
    by (simp add: fallback_tail_def)
  then show ?thesis
    by (metis suffix_drop)
qed

text \<open>
  C9.  The dashboard always answers HTTP 200.  When a query of the context or the
  rendering of the template raises an exception, the body is a fixed page around the
  text of that exception, which it contains as it is.  The page is an HTML document of
  its own: it opens with the doctype, \<open><html>\<close> and \<open><head>\<close> and closes with
  \<open></body>\<close> and \<open></html>\<close>; it has a title, an inline style, a heading, the error
  and the list of the links to the API endpoints; and its fixed text loads nothing from
  elsewhere: no script, stylesheet, image, frame or other source.
\<close>

theorem dashboard_never_fails:
  "page_status (dashboard env w) = 200
   \<and> ((db_query_fault env = Some e
        \<or> (db_query_fault env = None
            \<and> render_template env ''dashboard.html'' (dashboard_context w) = Inl e)) \<longrightarrow>
       page_body (dashboard env w) = fallback_head @ str_exc env e @ fallback_tail
     \<and> sublist (str_exc env e) (page_body (dashboard env w))
     \<and> (\<forall>p \<in> set listed_endpoints. sublist p (page_body (dashboard env w)))
     \<and> prefix (''\<newline>        <!DOCTYPE html>\<newline>        <html>\<newline>        <head>\<newline>'')
          (page_body (dashboard env w))
     \<and> suffix (''        </body>\<newline>        </html>\<newline>        '')
          (page_body (dashboard env w))
     \<and> (\<forall>m \<in> set head_elements. sublist m fallback_head)
     \<and> (\<forall>m \<in> set tail_elements. sublist m fallback_tail)
     \<and> (\<forall>m \<in> set external_references.
           \<not> sublist m fallback_head \<and> \<not> sublist m fallback_tail))"
proof -
  have st: "page_status (dashboard env w) = 200"
    by (simp add: dashboard_def split: option.split sum.split)
  have fb: "page_body (dashboard env w) = fallback_head @ str_exc env e @ fallback_tail"
    if "db_query_fault env = Some e
        \<or> (db_query_fault env = None
            \<and> render_template env ''dashboard.html'' (dashboard_context w) = Inl e)"
    using that by (auto simp add: dashboard_def fallback_page_def)
  have lists: "\<forall>p \<in> set listed_endpoints.
      sublist p (fallback_head @ str_exc env e @ fallback_tail)"
    using fallback_page_lists [of _ "str_exc env e"] by (simp add: fallback_page_def)
  have opens: "prefix (''\<newline>        <!DOCTYPE html>\<newline>        <html>\<newline>        <head>\<newline>'')
      (fallback_head @ str_exc env e @ fallback_tail)"
    using fallback_head_opens by (rule prefix_prefix)
  have closes: "suffix (''        </body>\<newline>        </html>\<newline>        '')
      (fallback_head @ str_exc env e @ fallback_tail)"
    using fallback_tail_closes by (metis append.assoc suffix_appendI)
  have elements: "(\<forall>m \<in> set head_elements. sublist m fallback_head)
     \<and> (\<forall>m \<in> set tail_elements. sublist m fallback_tail)
     \<and> (\<forall>m \<in> set external_references.
           \<not> sublist m fallback_head \<and> \<not> sublist m fallback_tail)"
    using fallback_head_elements fallback_tail_elements fallback_head_no_external
      fallback_tail_no_external
    by (simp add: list_all_iff)
  show ?thesis
    using st fb lists opens closes elements sublist_appendI [of "str_exc env e" fallback_head fallback_tail]
    by simp
qed

section \<open>The analytics and the dashboard on sample inputs\<close>

lemma round_sample: "round_half_even (100 / 3) 2 = 3333 / 100"
proof -
  have "\<lfloor>10000 / 3 :: rat\<rfloor> = 3333"
    by (rule floor_unique) simp_all
  then show ?thesis
    by (simp add: round_half_even_def Let_def)
qed

theorem task_analytics_completion_rate_witness:
  "field (fst (task_analytics sample_env sample_world)) ''completion_rate'' = Some (JInt 0)
   \<and> field (fst (task_analytics sample_env sample_world)) ''chart_image'' = Some JNull
   \<and> chart_calls (snd (task_analytics sample_env sample_world)) = 0
   \<and> field (fst (task_analytics sample_env three_tasks)) ''completion_rate''
        = Some (JFloat (3333 / 100))"
proof -
  have q: "db_query_fault sample_env = None"
    by (simp add: sample_env_def)
  show ?thesis
    using task_analytics_completion_rate [OF q refl refl refl, where w = sample_world]
      task_analytics_completion_rate [OF q refl refl refl, where w = three_tasks]
    by (simp add: sample_world_def three_tasks_def sample_task_def sample_env_def round_sample)
qed

theorem task_analytics_chart_failure_witness:
  "resp_status (fst (task_analytics env_no_chart three_tasks)) = 200
   \<and> field (fst (task_analytics env_no_chart three_tasks)) ''chart_image'' = Some JNull
   \<and> field (fst (task_analytics (env_no_chart\<lparr>savefig_b64 := (\<lambda>spec. Inr ''iVBORw0KGgo='')\<rparr>)
                   three_tasks)) ''chart_image'' = Some (JStr ''iVBORw0KGgo='')
   \<and> field (fst (task_analytics env_no_chart three_tasks)) ''total_tasks''
       = field (fst (task_analytics (env_no_chart\<lparr>savefig_b64 := (\<lambda>spec. Inr ''iVBORw0KGgo='')\<rparr>)
                   three_tasks)) ''total_tasks''
   \<and> field (fst (task_analytics env_no_chart three_tasks)) ''completion_rate''
       = field (fst (task_analytics (env_no_chart\<lparr>savefig_b64 := (\<lambda>spec. Inr ''iVBORw0KGgo='')\<rparr>)
                   three_tasks)) ''completion_rate''"
proof -
  have q: "db_query_fault env_no_chart = None"
    by (simp add: env_no_chart_def sample_env_def)
  have t: "tasks three_tasks \<noteq> []"
    by (simp add: three_tasks_def)
  have f: "savefig_b64 env_no_chart (drawn_chart three_tasks) = Inl (Raised ''no display'')"
    by (simp add: env_no_chart_def)
  show ?thesis
    using task_analytics_chart_failure [OF q t f refl, where png = "''iVBORw0KGgo=''"]
    by (simp add: statistics_fields_def)
qed

theorem dashboard_never_fails_witness:
  "page_status (dashboard env_no_template sample_world) = 200
   \<and> sublist ''dashboard.html'' (page_body (dashboard env_no_template sample_world))
   \<and> sublist ''/api/tasks/'' (page_body (dashboard env_no_template sample_world))
   \<and> sublist ''/api/analytics/'' (page_body (dashboard env_no_template sample_world))
   \<and> prefix (''\<newline>        <!DOCTYPE html>\<newline>        <html>\<newline>        <head>\<newline>'')
        (page_body (dashboard env_no_template sample_world))"
proof -
  have q: "db_query_fault env_no_template = Some (Raised ''dashboard.html'')
           \<or> (db_query_fault env_no_template = None
               \<and> render_template env_no_template ''dashboard.html'' (dashboard_context sample_world)
                   = Inl (Raised ''dashboard.html''))"
    by (simp add: env_no_template_def sample_env_def)
  have s: "str_exc env_no_template (Raised ''dashboard.html'') = ''dashboard.html''"
    by (simp add: env_no_template_def sample_env_def sample_str_exc_def)
  note th = dashboard_never_fails [where env = env_no_template and w = sample_world
      and e = "Raised ''dashboard.html''"]
  have "sublist (str_exc env_no_template (Raised ''dashboard.html''))
          (page_body (dashboard env_no_template sample_world))
        \<and> (\<forall>p \<in> set listed_endpoints.
              sublist p (page_body (dashboard env_no_template sample_world)))
        \<and> prefix (''\<newline>        <!DOCTYPE html>\<newline>        <html>\<newline>        <head>\<newline>'')
              (page_body (dashboard env_no_template sample_world))"
    using th q by blast
  then show ?thesis
    using th [THEN conjunct1] by (simp add: s listed_endpoints_def)
qed

section \<open>Properties of creating and retrieving tasks\<close>










section \<open>Creating and retrieving tasks on sample inputs\<close>





end
